theory Spec2Isabelle
  imports Main "HOL-Library.Word"
begin

section \<open>The header \<^verbatim>\<open>clib/download.h\<close>\<close>

text \<open>
  The repository fragment is one C header. It is embedded as it is written: the list of
  its lines, in order, byte for byte (the copyright sign of lines 4 and 5 is the two
  bytes C2 A9 of its UTF-8 encoding). The last line has no line terminator.
\<close>

definition download_h :: "string list" where
  "download_h =
   [''/*'',
    '' * clib/download.h - WebKitDownload wrapper header'',
    '' *'',
    '' * Copyright '' @ [CHR 0xC2, CHR 0xA9] @ '' 2011 Fabian Streitel <karottenreibe@gmail.com>'',
    '' * Copyright '' @ [CHR 0xC2, CHR 0xA9] @ '' 2011 Mason Larobina <mason.larobina@gmail.com>'',
    '' *'',
    '' * This program is free software: you can redistribute it and/or modify'',
    '' * it under the terms of the GNU General Public License as published by'',
    '' * the Free Software Foundation, either version 3 of the License, or'',
    '' * (at your option) any later version.'',
    '' *'',
    '' * This program is distributed in the hope that it will be useful,'',
    '' * but WITHOUT ANY WARRANTY; without even the implied warranty of'',
    '' * MERCHANTABILITY or FITNESS FOR A PARTICULAR PURPOSE.  See the'',
    '' * GNU General Public License for more details.'',
    '' *'',
    '' * You should have received a copy of the GNU General Public License'',
    '' * along with this program.  If not, see <http://www.gnu.org/licenses/>.'',
    '' *'',
    '' */'',
    '''',
    ''#ifndef LUAKIT_CLIB_DOWNLOAD_H'',
    ''#define LUAKIT_CLIB_DOWNLOAD_H'',
    '''',
    ''#include <lua.h>'',
    ''#include <webkit2/webkit2.h>'',
    '''',
    ''void download_class_setup(lua_State*);'',
    ''gint luaH_download_push(lua_State*, WebKitDownload*);'',
    '''',
    ''#endif'',
    '''',
    ''// vim: ft=c:et:sw=4:ts=8:sts=4:tw=80'']"

section \<open>Reading a header\<close>

subsection \<open>Comments\<close>

text \<open>
  The compiler replaces every comment by one space before it looks at directives and
  declarations. \<open>strip_comments b l\<close> does that on the line \<open>l\<close>; \<open>b\<close> says whether the
  line starts inside a block comment, and the result says whether it ends inside one.
\<close>

fun strip_comments :: "bool \<Rightarrow> string \<Rightarrow> string \<times> bool" where
  "strip_comments True (c # d # cs) =
     (if c = CHR ''*'' \<and> d = CHR ''/''
      then (case strip_comments False cs of (r, b) \<Rightarrow> (CHR '' '' # r, b))
      else strip_comments True (d # cs))"
| "strip_comments True cs = ([], True)"
| "strip_comments False (c # d # cs) =
     (if c = CHR ''/'' \<and> d = CHR ''*'' then strip_comments True cs
      else if c = CHR ''/'' \<and> d = CHR ''/'' then ([], False)
      else (case strip_comments False (d # cs) of (r, b) \<Rightarrow> (c # r, b)))"
| "strip_comments False cs = (cs, False)"

fun uncomment :: "bool \<Rightarrow> string list \<Rightarrow> string list" where
  "uncomment b [] = []"
| "uncomment b (l # ls) = (case strip_comments b l of (r, b') \<Rightarrow> r # uncomment b' ls)"

subsection \<open>Tokens\<close>

definition is_ident_char :: "char \<Rightarrow> bool" where
  "is_ident_char c \<longleftrightarrow>
     (let n = (of_char c :: nat) in
      (97 \<le> n \<and> n \<le> 122) \<or> (65 \<le> n \<and> n \<le> 90) \<or> (48 \<le> n \<and> n \<le> 57) \<or> n = 95)"

definition is_space :: "char \<Rightarrow> bool" where
  "is_space c \<longleftrightarrow> (let n = (of_char c :: nat) in n = 32 \<or> (9 \<le> n \<and> n \<le> 13))"

definition flush :: "string \<Rightarrow> string list" where
  "flush cur = (if cur = [] then [] else [rev cur])"

text \<open>
  A token is a maximal run of identifier characters or one punctuation character;
  white space separates tokens. \<open>cur\<close> is the identifier being read, reversed.
\<close>

fun tokens_acc :: "string \<Rightarrow> string \<Rightarrow> string list" where
  "tokens_acc cur [] = flush cur"
| "tokens_acc cur (c # cs) =
     (if is_ident_char c then tokens_acc (c # cur) cs
      else flush cur @ (if is_space c then [] else [[c]]) @ tokens_acc [] cs)"

definition tokens :: "string \<Rightarrow> string list" where
  "tokens l = tokens_acc [] l"

text \<open>The tokens of a header, line by line, comments removed.\<close>

definition token_lines :: "string list \<Rightarrow> string list list" where
  "token_lines h = map tokens (uncomment False h)"

subsection \<open>Directives and prototypes\<close>

text \<open>
  What a header can say, as far as this development reads it: the directives of an include
  guard, the inclusion of a system header, a function prototype without parameter names.
  Every other line is kept as it is, as \<open>Unparsed\<close>, so that nothing is dropped silently.
\<close>

datatype c_type = Named string | Ptr c_type

datatype fn_decl = Fn_decl (fn_ret: c_type) (fn_name: string) (fn_params: "c_type list")

datatype item =
    Ifndef string
  | Define string
  | Include string
  | Endif
  | Prototype fn_decl
  | Unparsed "string list"

definition is_ident :: "string \<Rightarrow> bool" where
  "is_ident t \<longleftrightarrow>
     (case t of [] \<Rightarrow> False
      | c # cs \<Rightarrow> list_all is_ident_char t \<and> \<not> (48 \<le> (of_char c :: nat) \<and> (of_char c :: nat) \<le> 57))"

fun pointers :: "string list \<Rightarrow> c_type \<Rightarrow> c_type option" where
  "pointers [] ty = Some ty"
| "pointers (s # ss) ty = (if s = ''*'' then pointers ss (Ptr ty) else None)"

definition parse_type :: "string list \<Rightarrow> c_type option" where
  "parse_type ts =
     (case ts of [] \<Rightarrow> None
      | t # ss \<Rightarrow> if is_ident t then pointers ss (Named t) else None)"

fun split_on :: "'a \<Rightarrow> 'a list \<Rightarrow> 'a list list" where
  "split_on x [] = [[]]"
| "split_on x (y # ys) =
     (if y = x then [] # split_on x ys
      else (case split_on x ys of [] \<Rightarrow> [[y]] | g # gs \<Rightarrow> (y # g) # gs))"

text \<open>An empty parameter list and the list \<^verbatim>\<open>(void)\<close> both declare no parameter.\<close>

definition parse_params :: "string list \<Rightarrow> c_type list option" where
  "parse_params ts =
     (if ts = [] \<or> ts = [''void''] then Some []
      else those (map parse_type (split_on '','' ts)))"

definition parse_prototype :: "string list \<Rightarrow> fn_decl option" where
  "parse_prototype ts =
     (let pre = takeWhile (\<lambda>t. t \<noteq> ''('') ts;
          rest = drop 1 (dropWhile (\<lambda>t. t \<noteq> ''('') ts)
      in if length pre < 2 \<or> length rest < 2 then None
         else if last rest \<noteq> '';'' \<or> last (butlast rest) \<noteq> '')'' \<or> \<not> is_ident (last pre)
         then None
         else (case parse_type (butlast pre) of
                 None \<Rightarrow> None
               | Some r \<Rightarrow>
                   (case parse_params (butlast (butlast rest)) of
                      None \<Rightarrow> None
                    | Some ps \<Rightarrow> Some (Fn_decl r (last pre) ps))))"

definition directive :: "string list \<Rightarrow> item" where
  "directive ts =
     (case ts of
        [] \<Rightarrow> Unparsed [''#'']
      | k # as \<Rightarrow>
          if k = ''ifndef'' then (case as of [x] \<Rightarrow> Ifndef x | _ \<Rightarrow> Unparsed (''#'' # ts))
          else if k = ''define'' then (case as of [x] \<Rightarrow> Define x | _ \<Rightarrow> Unparsed (''#'' # ts))
          else if k = ''endif'' then (case as of [] \<Rightarrow> Endif | _ \<Rightarrow> Unparsed (''#'' # ts))
          else if k = ''include'' then
            (case as of
               [] \<Rightarrow> Unparsed (''#'' # ts)
             | l # rest \<Rightarrow>
                 if l = ''<'' \<and> rest \<noteq> [] \<and> last rest = ''>''
                 then Include (concat (butlast rest))
                 else Unparsed (''#'' # ts))
          else Unparsed (''#'' # ts))"

definition parse_line :: "string list \<Rightarrow> item list" where
  "parse_line ts =
     (case ts of
        [] \<Rightarrow> []
      | t # rest \<Rightarrow>
          if t = ''#'' then [directive rest]
          else (case parse_prototype ts of
                  Some d \<Rightarrow> [Prototype d]
                | None \<Rightarrow> [Unparsed ts]))"

definition items :: "string list \<Rightarrow> item list" where
  "items h = concat (map parse_line (token_lines h))"

subsection \<open>What a header declares\<close>

fun prototypes :: "item list \<Rightarrow> fn_decl list" where
  "prototypes [] = []"
| "prototypes (Prototype d # is) = d # prototypes is"
| "prototypes (i # is) = prototypes is"

fun unparsed :: "item list \<Rightarrow> string list list" where
  "unparsed [] = []"
| "unparsed (Unparsed ts # is) = ts # unparsed is"
| "unparsed (i # is) = unparsed is"

definition declarations :: "string list \<Rightarrow> fn_decl list" where
  "declarations h = prototypes (items h)"

definition declaration_of :: "string \<Rightarrow> string list \<Rightarrow> fn_decl list" where
  "declaration_of n h = filter (\<lambda>d. fn_name d = n) (declarations h)"

definition included_headers :: "string list \<Rightarrow> string list" where
  "included_headers h = concat (map (\<lambda>i. case i of Include f \<Rightarrow> [f] | _ \<Rightarrow> []) (items h))"

text \<open>All tokens of a header outside its comments, directives included.\<close>

definition code_tokens :: "string list \<Rightarrow> string list" where
  "code_tokens h = concat (token_lines h)"

text \<open>
  An item that only declares an interface: a guard directive, an inclusion, a prototype.
  A type definition, an object, a macro with a body or a function definition is none of
  them and is read as \<open>Unparsed\<close>.
\<close>

fun interface_item :: "item \<Rightarrow> bool" where
  "interface_item (Unparsed ts) = False"
| "interface_item i = True"

text \<open>
  The tokens without which C code has no function body or initialiser, no statement, and
  no definition of a type.
\<close>

definition body_tokens :: "string list" where
  "body_tokens = [''{'', ''}'', ''='']"

definition statement_keywords :: "string list" where
  "statement_keywords =
     [''if'', ''else'', ''for'', ''while'', ''do'', ''switch'', ''case'', ''default'',
      ''return'', ''goto'', ''break'', ''continue'']"

definition type_keywords :: "string list" where
  "type_keywords = [''struct'', ''union'', ''enum'', ''typedef'']"

section \<open>Including a header\<close>

text \<open>
  The preprocessor's state while it reads a translation unit: the macros defined so far,
  how many conditional groups it is skipping (0 when it is not skipping), and the
  declarations passed on to the compiler, in order.
\<close>

datatype tu_decl = Fn fn_decl | External string | Other "string list"

record pp_state =
  macros :: "string set"
  skipping :: nat
  declared :: "tu_decl list"

text \<open>
  The system headers \<^verbatim>\<open><lua.h>\<close> and \<^verbatim>\<open><webkit2/webkit2.h>\<close> are not part of the
  repository. They are a parameter: \<open>sys f M\<close> is what including the system header \<open>f\<close>
  with the macros \<open>M\<close> defined leaves behind, the new set of macros and the declarations
  it adds.
\<close>

type_synonym sys_headers = "string \<Rightarrow> string set \<Rightarrow> string set \<times> tu_decl list"

fun cpp_step :: "sys_headers \<Rightarrow> pp_state \<Rightarrow> item \<Rightarrow> pp_state" where
  "cpp_step sys s (Ifndef x) =
     (if 0 < skipping s then s\<lparr>skipping := Suc (skipping s)\<rparr>
      else if x \<in> macros s then s\<lparr>skipping := 1\<rparr>
      else s)"
| "cpp_step sys s Endif =
     (if 0 < skipping s then s\<lparr>skipping := skipping s - 1\<rparr> else s)"
| "cpp_step sys s (Define x) =
     (if 0 < skipping s then s else s\<lparr>macros := insert x (macros s)\<rparr>)"
| "cpp_step sys s (Include f) =
     (if 0 < skipping s then s
      else (case sys f (macros s) of
              (m, ds) \<Rightarrow> s\<lparr>macros := m, declared := declared s @ ds\<rparr>))"
| "cpp_step sys s (Prototype d) =
     (if 0 < skipping s then s else s\<lparr>declared := declared s @ [Fn d]\<rparr>)"
| "cpp_step sys s (Unparsed ts) =
     (if 0 < skipping s then s else s\<lparr>declared := declared s @ [Other ts]\<rparr>)"

definition include_header :: "sys_headers \<Rightarrow> string list \<Rightarrow> pp_state \<Rightarrow> pp_state" where
  "include_header sys h s = foldl (cpp_step sys) s (items h)"

definition guard_kept :: "sys_headers \<Rightarrow> bool" where
  "guard_kept sys \<longleftrightarrow>
     (\<forall>f M. ''LUAKIT_CLIB_DOWNLOAD_H'' \<in> M \<longrightarrow> ''LUAKIT_CLIB_DOWNLOAD_H'' \<in> fst (sys f M))"

section \<open>The types of GLib\<close>

text \<open>
  \<^verbatim>\<open>gint\<close> is GLib's name for C's \<^verbatim>\<open>int\<close> (\<^verbatim>\<open>typedef int gint;\<close>), a signed integer in
  two's complement whose width the platform fixes. \<open>G_MININT\<close> and \<open>G_MAXINT\<close> are its
  bounds at the width \<open>'w\<close>. On the platforms of GLib and WebKitGTK the width is 32.
\<close>

type_synonym gint = "32 word"

definition G_MININT :: "'w::len itself \<Rightarrow> int" where
  "G_MININT w = - (2 ^ (LENGTH('w) - 1))"

definition G_MAXINT :: "'w::len itself \<Rightarrow> int" where
  "G_MAXINT w = 2 ^ (LENGTH('w) - 1) - 1"

section \<open>The two functions\<close>

text \<open>
  Modelled from the spec: the scripting runtime. The header only names the type
  \<^verbatim>\<open>lua_State\<close>; the spec speaks of the runtime's evaluation stack, on which values are
  placed, and of its global environment, into which types are registered. A value is a
  reference to a native download, given by the handle's address, or a registered type.
\<close>

datatype lua_value = Download_ref nat | Class string

record lua_State =
  stack :: "lua_value list"
  globals :: "string \<rightharpoonup> lua_value"

text \<open>
  Modelled from the spec: the body of \<^verbatim>\<open>download_class_setup\<close>, which is in the
  implementation file and not in the header. The spec: it "registers the download type
  into the scripting runtime", into its "global environment"; it has no return value.
\<close>

definition download_class_setup :: "lua_State \<Rightarrow> lua_State" where
  "download_class_setup L = L\<lparr>globals := (globals L)(''download'' \<mapsto> Class ''download'')\<rparr>"

text \<open>
  Modelled from the spec: the body of \<^verbatim>\<open>luaH_download_push\<close>, which is in the
  implementation file and not in the header. The spec: it "takes a native download handle
  and exposes it as a scripting-visible reference", and "returns a count of values
  pushed". The top of the stack is the end of the list.
\<close>

definition luaH_download_push :: "lua_State \<Rightarrow> nat \<Rightarrow> lua_State \<times> gint" where
  "luaH_download_push L d = (L\<lparr>stack := stack L @ [Download_ref d]\<rparr>, 1)"

text \<open>The number of values a call placed on the stack, from the stack before and after.\<close>

definition pushed :: "lua_State \<Rightarrow> lua_State \<Rightarrow> int" where
  "pushed L L' = int (length (stack L')) - int (length (stack L))"

section \<open>The header, read\<close>

text \<open>
  The reading above does not treat string literals, character constants or lines joined
  by a backslash. The header has none: no quote and no backslash occurs in its text.
\<close>

lemma download_h_no_literals:
  "filter (\<lambda>c. c = CHR 0x22 \<or> c = CHR 0x27 \<or> c = CHR 0x5C) (concat download_h) = []"
  by code_simp

lemma download_h_token_lines:
  "token_lines download_h =
     replicate 21 [] @
     [[''#'', ''ifndef'', ''LUAKIT_CLIB_DOWNLOAD_H''],
      [''#'', ''define'', ''LUAKIT_CLIB_DOWNLOAD_H''],
      [],
      [''#'', ''include'', ''<'', ''lua'', ''.'', ''h'', ''>''],
      [''#'', ''include'', ''<'', ''webkit2'', ''/'', ''webkit2'', ''.'', ''h'', ''>''],
      [],
      [''void'', ''download_class_setup'', ''('', ''lua_State'', ''*'', '')'', '';''],
      [''gint'', ''luaH_download_push'', ''('', ''lua_State'', ''*'', '','',
       ''WebKitDownload'', ''*'', '')'', '';''],
      [],
      [''#'', ''endif''],
      [],
      []]"
  by code_simp

lemma download_h_items:
  "items download_h =
     [Ifndef ''LUAKIT_CLIB_DOWNLOAD_H'',
      Define ''LUAKIT_CLIB_DOWNLOAD_H'',
      Include ''lua.h'',
      Include ''webkit2/webkit2.h'',
      Prototype (Fn_decl (Named ''void'') ''download_class_setup'' [Ptr (Named ''lua_State'')]),
      Prototype (Fn_decl (Named ''gint'') ''luaH_download_push''
                   [Ptr (Named ''lua_State''), Ptr (Named ''WebKitDownload'')]),
      Endif]"
  by code_simp

lemma download_h_declarations:
  "declarations download_h =
     [Fn_decl (Named ''void'') ''download_class_setup'' [Ptr (Named ''lua_State'')],
      Fn_decl (Named ''gint'') ''luaH_download_push''
        [Ptr (Named ''lua_State''), Ptr (Named ''WebKitDownload'')]]"
  by (simp add: declarations_def download_h_items)

lemma download_h_code_tokens:
  "code_tokens download_h =
     [''#'', ''ifndef'', ''LUAKIT_CLIB_DOWNLOAD_H'',
      ''#'', ''define'', ''LUAKIT_CLIB_DOWNLOAD_H'',
      ''#'', ''include'', ''<'', ''lua'', ''.'', ''h'', ''>'',
      ''#'', ''include'', ''<'', ''webkit2'', ''/'', ''webkit2'', ''.'', ''h'', ''>'',
      ''void'', ''download_class_setup'', ''('', ''lua_State'', ''*'', '')'', '';'',
      ''gint'', ''luaH_download_push'', ''('', ''lua_State'', ''*'', '','',
      ''WebKitDownload'', ''*'', '')'', '';'',
      ''#'', ''endif'']"
  by (simp add: code_tokens_def download_h_token_lines)

section \<open>The declared interface\<close>

text \<open>
  Claim C1. The header declares exactly two functions, the class setup routine
  \<^verbatim>\<open>download_class_setup\<close> and the routine \<^verbatim>\<open>luaH_download_push\<close> that pushes a native
  download handle, in this order, and nothing else: outside its comments every line is
  blank, a directive or one of these two prototypes, so no line is left unread.
\<close>

theorem header_declares_exactly_two_functions:
  "declarations download_h =
     [Fn_decl (Named ''void'') ''download_class_setup'' [Ptr (Named ''lua_State'')],
      Fn_decl (Named ''gint'') ''luaH_download_push''
        [Ptr (Named ''lua_State''), Ptr (Named ''WebKitDownload'')]]
   \<and> unparsed (items download_h) = []"
  by (simp add: download_h_declarations download_h_items)

text \<open>
  Claim C2, as stated, names the push entry point \<^verbatim>\<open>download_push\<close>. The header declares
  no function of that name.
\<close>

theorem download_push_not_declared:
  "declaration_of ''download_push'' download_h = []"
  by (simp add: declaration_of_def download_h_declarations)

text \<open>
  Claim C2, amended. The push entry point is declared under the name
  \<^verbatim>\<open>luaH_download_push\<close>, once. It takes exactly two inputs, a pointer to the runtime
  state \<^verbatim>\<open>lua_State\<close> and a pointer to the native download \<^verbatim>\<open>WebKitDownload\<close>, in that
  order, and returns the integer type \<^verbatim>\<open>gint\<close>.
\<close>

theorem push_declaration:
  "declaration_of ''luaH_download_push'' download_h =
     [Fn_decl (Named ''gint'') ''luaH_download_push''
        [Ptr (Named ''lua_State''), Ptr (Named ''WebKitDownload'')]]"
  by (simp add: declaration_of_def download_h_declarations)

text \<open>
  Claim C3. The setup routine \<^verbatim>\<open>download_class_setup\<close> is declared once, with exactly one
  parameter, the pointer to the runtime state, and with the return type \<^verbatim>\<open>void\<close>.
\<close>

theorem setup_declaration:
  "declaration_of ''download_class_setup'' download_h =
     [Fn_decl (Named ''void'') ''download_class_setup'' [Ptr (Named ''lua_State'')]]"
  by (simp add: declaration_of_def download_h_declarations)

text \<open>
  Claim C9. The header fixes the external types of the binding. In both declarations the
  runtime state is a pointer to \<^verbatim>\<open>lua_State\<close>, the first parameter; the native download
  handle, which only the push routine takes, is a pointer to \<^verbatim>\<open>WebKitDownload\<close>. The two
  names come from the headers of Lua and of WebKit2 that the header includes.
\<close>

theorem binding_types:
  "map fn_params (declarations download_h) =
     [[Ptr (Named ''lua_State'')],
      [Ptr (Named ''lua_State''), Ptr (Named ''WebKitDownload'')]]
   \<and> included_headers download_h = [''lua.h'', ''webkit2/webkit2.h'']"
  by (simp add: download_h_declarations included_headers_def download_h_items)

text \<open>
  Claim C10. The push routine is declared to return \<^verbatim>\<open>gint\<close>. At every width \<open>'w\<close> a
  \<^verbatim>\<open>gint\<close> read as a signed integer lies between \<open>G_MININT\<close> and \<open>G_MAXINT\<close>, and the
  negative value \<open>-1\<close> is one of them; at the width 32 the bounds are \<open>-2147483648\<close> and
  \<open>2147483647\<close>.
\<close>

theorem push_return_type_gint:
  "map fn_ret (declaration_of ''luaH_download_push'' download_h) = [Named ''gint'']
   \<and> (\<forall>x :: 'w::len word. G_MININT TYPE('w) \<le> sint x \<and> sint x \<le> G_MAXINT TYPE('w))
   \<and> sint (- 1 :: 'w word) < 0
   \<and> G_MININT TYPE(32) = - 2147483648 \<and> G_MAXINT TYPE(32) = 2147483647"
proof -
  have "- (2 ^ (LENGTH('w) - 1)) \<le> sint x" and "sint x < 2 ^ (LENGTH('w) - 1)"
    for x :: "'w word"
    by (rule sint_ge, rule sint_lt)
  then show ?thesis
    by (simp add: declaration_of_def download_h_declarations G_MININT_def G_MAXINT_def)
qed

section \<open>A header without implementation\<close>

text \<open>
  Claim C6. The header has 33 lines and holds no implementation: a function body is a
  block in braces, and outside the comments the header has no opening and no closing
  brace, so neither declared function is defined in it.
\<close>

theorem header_has_33_lines_and_no_body:
  "length download_h = 33
   \<and> ''{'' \<notin> set (code_tokens download_h)
   \<and> ''}'' \<notin> set (code_tokens download_h)"
  by (simp add: download_h_code_tokens) (simp add: download_h_def)

text \<open>
  Claim C7. The header holds interface declarations only. Each of its items is a
  directive of the include guard, an inclusion or a prototype; and its code has no
  brace and no initialiser, no statement keyword, and no keyword that defines a type.
  With no body and no statement there is nothing in it that computes, keeps a state,
  blocks, runs concurrently or owns a resource.
\<close>

theorem header_is_interface_only:
  "filter (\<lambda>i. \<not> interface_item i) (items download_h) = []
   \<and> filter (\<lambda>t. t \<in> set (body_tokens @ statement_keywords @ type_keywords))
        (code_tokens download_h) = []"
  by (simp add: download_h_items download_h_code_tokens body_tokens_def
      statement_keywords_def type_keywords_def)

section \<open>The include guard\<close>

text \<open>
  Once the guard macro is defined, including the header where the preprocessor is not
  skipping changes nothing: the whole header is one skipped group.
\<close>

lemma include_again:
  assumes "skipping s = 0" and "''LUAKIT_CLIB_DOWNLOAD_H'' \<in> macros s"
  shows "include_header sys download_h s = s"
  using assms by (simp add: include_header_def download_h_items)

text \<open>
  After an inclusion the guard macro is defined, as long as the two system headers,
  which are read after the guard's \<^verbatim>\<open>#define\<close>, leave it defined.
\<close>

lemma include_defines_guard:
  assumes "guard_kept sys" and "skipping s = 0"
  shows "''LUAKIT_CLIB_DOWNLOAD_H'' \<in> macros (include_header sys download_h s)
       \<and> skipping (include_header sys download_h s) = 0"
proof (cases "''LUAKIT_CLIB_DOWNLOAD_H'' \<in> macros s")
  case True
  with assms show ?thesis by (simp add: include_again)
next
  case False
  obtain m1 d1
    where s1: "sys ''lua.h'' (insert ''LUAKIT_CLIB_DOWNLOAD_H'' (macros s)) = (m1, d1)"
    by (cases "sys ''lua.h'' (insert ''LUAKIT_CLIB_DOWNLOAD_H'' (macros s))")
  obtain m2 d2 where s2: "sys ''webkit2/webkit2.h'' m1 = (m2, d2)"
    by (cases "sys ''webkit2/webkit2.h'' m1")
  from assms(1) s1 have g1: "''LUAKIT_CLIB_DOWNLOAD_H'' \<in> m1"
    unfolding guard_kept_def by (metis fst_conv insertI1)
  with assms(1) s2 have g2: "''LUAKIT_CLIB_DOWNLOAD_H'' \<in> m2"
    unfolding guard_kept_def by (metis fst_conv)
  from False assms(2) s1 s2 g2 show ?thesis
    by (simp add: include_header_def download_h_items)
qed

text \<open>
  Claim C8. Including the header is idempotent. Wherever in a translation unit the
  header is included (the preprocessor not skipping, any macros defined, any
  declarations made before), including it \<open>n + 1\<close> times in a row leaves the preprocessor
  in the state that including it once does: the same macros and the same declarations,
  in particular the same set of declarations. The system headers are any that do not
  undefine the guard macro.
\<close>

theorem include_guard_idempotent:
  assumes "guard_kept sys" and "skipping s = 0"
  shows "(include_header sys download_h ^^ Suc n) s = include_header sys download_h s
       \<and> set (declared ((include_header sys download_h ^^ Suc n) s))
           = set (declared (include_header sys download_h s))"
proof -
  have "(include_header sys download_h ^^ Suc n) s = include_header sys download_h s"
  proof (induction n)
    case 0
    show ?case by simp
  next
    case (Suc n)
    have "(include_header sys download_h ^^ Suc (Suc n)) s
            = include_header sys download_h ((include_header sys download_h ^^ Suc n) s)"
      by simp
    also have "\<dots> = include_header sys download_h (include_header sys download_h s)"
      by (simp only: Suc.IH)
    also have "\<dots> = include_header sys download_h s"
      using include_defines_guard [OF assms] by (simp add: include_again)
    finally show ?case .
  qed
  then show ?thesis by simp
qed

text \<open>
  Three inclusions at the start of a translation unit, with system headers that each
  add one declaration and define no macro: the result is that of one inclusion.
\<close>

theorem include_guard_idempotent_witness:
  "guard_kept (\<lambda>f M. (M, [External f]))
   \<and> skipping \<lparr>macros = {}, skipping = 0, declared = []\<rparr> = 0
   \<and> (include_header (\<lambda>f M. (M, [External f])) download_h ^^ Suc 2)
        \<lparr>macros = {}, skipping = 0, declared = []\<rparr>
     = \<lparr>macros = {''LUAKIT_CLIB_DOWNLOAD_H''}, skipping = 0,
        declared =
          [External ''lua.h'', External ''webkit2/webkit2.h'',
           Fn (Fn_decl (Named ''void'') ''download_class_setup'' [Ptr (Named ''lua_State'')]),
           Fn (Fn_decl (Named ''gint'') ''luaH_download_push''
                 [Ptr (Named ''lua_State''), Ptr (Named ''WebKitDownload'')])]\<rparr>"
proof -
  have g: "guard_kept (\<lambda>f M. (M, [External f]))"
    by (simp add: guard_kept_def)
  have k: "skipping \<lparr>macros = {}, skipping = 0, declared = []\<rparr> = 0"
    by simp
  from include_guard_idempotent [OF g k, of 2] g k show ?thesis
    by (simp add: include_header_def download_h_items)
qed

section \<open>The behaviour the spec gives the two functions\<close>

text \<open>
  Claim C4. For every runtime state and every handle, the integer the push routine
  returns is the number of values the call placed on the evaluation stack: the stack
  has grown by that many values, and the values that were on it are still there, below.
\<close>

theorem push_returns_number_pushed:
  "sint (snd (luaH_download_push L d)) = pushed L (fst (luaH_download_push L d))
   \<and> take (length (stack L)) (stack (fst (luaH_download_push L d))) = stack L"
  by (simp add: luaH_download_push_def pushed_def)

text \<open>
  Claim C5. For every runtime state, after the setup routine the download type is
  registered in that runtime's global environment, under its name.
\<close>

theorem setup_registers_download_class:
  "globals (download_class_setup L) ''download'' = Some (Class ''download'')
   \<and> Class ''download'' \<in> ran (globals (download_class_setup L))"
  by (auto simp: download_class_setup_def ran_def)

end
